theory Spec2Isabelle
  imports Main "HOL-Library.Word"
begin

section \<open>Values, strings and timestamps\<close>

text \<open>
  The harness is Python. A \<open>str\<close> is modelled as a \<open>string\<close> whose characters are the
  code points 0..255; a \<open>float\<close> is only ever carried (the optional \<open>delay\<close> of a request),
  never computed with, so it is kept as its 64-bit pattern. A \<open>dict\<close> is an association
  list in insertion order with distinct keys.
\<close>

type_synonym pyfloat = "64 word"

datatype pyval =
    PNone
  | PBool bool
  | PInt int
  | PFloat pyfloat
  | PStr string
  | PList "pyval list"
  | PDict "(string \<times> pyval) list"

type_synonym dict = "(string \<times> pyval) list"

datatype error =
    HTTPException int string
  | AssertionError string
  | IndexError
  | KeyError string
  | TypeError
  | EngineError
  | JSONDecodeError

text \<open>\<open>d[k] = v\<close> on a dict: an existing key keeps its position.\<close>

fun dict_set :: "string \<Rightarrow> pyval \<Rightarrow> dict \<Rightarrow> dict" where
  "dict_set k v [] = [(k, v)]"
| "dict_set k v ((k', v') # d) =
     (if k = k' then (k, v) # d else (k', v') # dict_set k v d)"

text \<open>\<open>{**base, **extra}\<close>: the keys of \<open>extra\<close> are stored one after the other.\<close>

definition dict_merge :: "dict \<Rightarrow> dict \<Rightarrow> dict" where
  "dict_merge base extra = foldl (\<lambda>d (k, v). dict_set k v d) base extra"

text \<open>\<open>d[k]\<close>: raises \<open>KeyError\<close> on a missing key.\<close>

definition getitem :: "dict \<Rightarrow> string \<Rightarrow> error + pyval" where
  "getitem d k = (case map_of d k of None \<Rightarrow> Inl (KeyError k) | Some v \<Rightarrow> Inr v)"

definition opt_float :: "pyfloat option \<Rightarrow> pyval" where
  "opt_float f = (case f of None \<Rightarrow> PNone | Some r \<Rightarrow> PFloat r)"

text \<open>
  A double is finite unless its eleven exponent bits are all set (infinity and NaN). JSON
  has no text for those, and the web framework renders a response with \<open>allow_nan=False\<close>:
  \<open>json_ok\<close> says that a value can be rendered.
\<close>

definition finite_float :: "pyfloat \<Rightarrow> bool" where
  "finite_float w = (take_bit 11 (drop_bit 52 w) \<noteq> (2047 :: 64 word))"

fun json_ok :: "pyval \<Rightarrow> bool" where
  "json_ok (PFloat w) = finite_float w"
| "json_ok (PList vs) = list_all json_ok vs"
| "json_ok (PDict kvs) = list_all (\<lambda>kv. json_ok (snd kv)) kvs"
| "json_ok _ = True"

subsection \<open>Decimal output\<close>

definition digit_char :: "nat \<Rightarrow> char" where
  "digit_char n = char_of (48 + n)"

fun str_nat :: "nat \<Rightarrow> string" where
  "str_nat n = (if n < 10 then [digit_char n] else str_nat (n div 10) @ [digit_char (n mod 10)])"

declare str_nat.simps [simp del]

definition str_int :: "int \<Rightarrow> string" where
  "str_int i = (if i < 0 then CHR ''-'' # str_nat (nat (- i)) else str_nat (nat i))"

definition zfill :: "nat \<Rightarrow> string \<Rightarrow> string" where
  "zfill w s = replicate (w - length s) CHR ''0'' @ s"

subsection \<open>\<open>repr\<close> of a string and of a list of strings\<close>

definition hex_digit :: "nat \<Rightarrow> char" where
  "hex_digit n = (if n < 10 then char_of (48 + n) else char_of (87 + n))"

definition isprintable :: "char \<Rightarrow> bool" where
  "isprintable c =
     (let n = (of_char c :: nat)
      in (32 \<le> n \<and> n \<le> 126) \<or> (161 \<le> n \<and> n \<noteq> 173))"

definition repr_char :: "char \<Rightarrow> char \<Rightarrow> string" where
  "repr_char q c =
     (if c = q \<or> c = CHR 0x5C then [CHR 0x5C, c]
      else if c = CHR 0x09 then [CHR 0x5C, CHR ''t'']
      else if c = CHR 0x0A then [CHR 0x5C, CHR ''n'']
      else if c = CHR 0x0D then [CHR 0x5C, CHR ''r'']
      else if isprintable c then [c]
      else [CHR 0x5C, CHR ''x'', hex_digit (of_char c div 16), hex_digit (of_char c mod 16)])"

definition repr_str :: "string \<Rightarrow> string" where
  "repr_str s =
     (let q = (if CHR 0x27 \<in> set s \<and> CHR 0x22 \<notin> set s then CHR 0x22 else CHR 0x27)
      in q # concat (map (repr_char q) s) @ [q])"

fun join :: "string \<Rightarrow> string list \<Rightarrow> string" where
  "join sep [] = []"
| "join sep [s] = s"
| "join sep (s # t # ss) = s @ sep @ join sep (t # ss)"

definition repr_list :: "string list \<Rightarrow> string" where
  "repr_list xs = ''['' @ join '', '' (map repr_str xs) @ '']''"

subsection \<open>\<open>str.split(sep)\<close> and \<open>str.strip()\<close>\<close>

fun split :: "char \<Rightarrow> string \<Rightarrow> string list" where
  "split sep [] = [[]]"
| "split sep (c # cs) =
     (if c = sep then [] # split sep cs
      else (case split sep cs of [] \<Rightarrow> [[c]] | w # ws \<Rightarrow> (c # w) # ws))"

definition isspace :: "char \<Rightarrow> bool" where
  "isspace c =
     (let n = (of_char c :: nat)
      in (9 \<le> n \<and> n \<le> 13) \<or> (28 \<le> n \<and> n \<le> 32) \<or> n = 133 \<or> n = 160)"

definition strip :: "string \<Rightarrow> string" where
  "strip s = rev (dropWhile isspace (rev (dropWhile isspace s)))"

subsection \<open>\<open>datetime\<close>\<close>

text \<open>
  \<open>datetime.now()\<close> reads the clock: the value it returns is an input of every call that
  records a command. \<open>isoformat()\<close> of a naive datetime prints the microseconds only when
  they are not zero.
\<close>

record datetime =
  year :: nat
  month :: nat
  day :: nat
  hour :: nat
  minute :: nat
  second :: nat
  microsecond :: nat

definition isoformat :: "datetime \<Rightarrow> string" where
  "isoformat t =
     zfill 4 (str_nat (year t)) @ ''-'' @ zfill 2 (str_nat (month t)) @ ''-'' @
     zfill 2 (str_nat (day t)) @ ''T'' @ zfill 2 (str_nat (hour t)) @ '':'' @
     zfill 2 (str_nat (minute t)) @ '':'' @ zfill 2 (str_nat (second t)) @
     (if microsecond t = 0 then [] else ''.'' @ zfill 6 (str_nat (microsecond t)))"

section \<open>The simulation engine\<close>

text \<open>
  Modelled from the spec: the module \<open>tests.integration.state_machine\<close> (the state
  machine class and \<open>load_test_case\<close>) is not among the sources. The engine below follows
  sections 3 and 4.2 of the specification, under the attribute names the harness uses
  (\<open>states\<close>, \<open>current_state\<close>, \<open>current_state_id\<close>, \<open>state_history\<close>, \<open>handle_tap\<close>,
  \<open>handle_swipe\<close>, \<open>get_current_screenshot\<close>). The specification does not say what the
  engine does when \<open>current_state_id\<close> names no state, which its invariant excludes: here
  a read of the current state is then \<open>None\<close> and an event fires no transition.
\<close>

record Screenshot =
  base64_data :: string
  width :: int
  height :: int

datatype TransitionKind = Tap | Swipe

record Transition =
  kind :: TransitionKind
  matchRegion :: "int \<times> int \<times> int \<times> int"
  targetStateId :: string

record State =
  state_id :: string
  state_screenshot :: Screenshot
  state_current_app :: string
  transitions :: "Transition list"

record StateMachine =
  states :: "(string \<times> State) list"
  initial_state_id :: string
  current_state_id :: string
  state_history :: "string list"

definition in_region :: "int \<times> int \<times> int \<times> int \<Rightarrow> int \<Rightarrow> int \<Rightarrow> bool" where
  "in_region r px py =
     (case r of (x1, y1, x2, y2) \<Rightarrow> x1 \<le> px \<and> px \<le> x2 \<and> y1 \<le> py \<and> py \<le> y2)"

definition current_state :: "StateMachine \<Rightarrow> State option" where
  "current_state m = map_of (states m) (current_state_id m)"

definition handle_event :: "TransitionKind \<Rightarrow> StateMachine \<Rightarrow> int \<Rightarrow> int \<Rightarrow> string option \<times> StateMachine" where
  "handle_event k m px py =
     (case current_state m of
        None \<Rightarrow> (None, m)
      | Some st \<Rightarrow>
          (case find (\<lambda>t. kind t = k \<and> in_region (matchRegion t) px py) (transitions st) of
             None \<Rightarrow> (None, m)
           | Some t \<Rightarrow>
               (Some (targetStateId t),
                m\<lparr>current_state_id := targetStateId t,
                  state_history := state_history m @ [targetStateId t]\<rparr>)))"

definition handle_tap :: "StateMachine \<Rightarrow> int \<Rightarrow> int \<Rightarrow> string option \<times> StateMachine" where
  "handle_tap m px py = handle_event Tap m px py"

definition handle_swipe :: "StateMachine \<Rightarrow> int \<Rightarrow> int \<Rightarrow> int \<Rightarrow> int \<Rightarrow> string option \<times> StateMachine" where
  "handle_swipe m sx sy ex ey = handle_event Swipe m sx sy"

definition get_current_screenshot :: "StateMachine \<Rightarrow> Screenshot option" where
  "get_current_screenshot m = map_option state_screenshot (current_state m)"

section \<open>The command recorder and the harness state\<close>

record CommandRecord =
  action :: string
  device_id :: string
  params :: dict
  timestamp :: datetime

definition to_dict :: "CommandRecord \<Rightarrow> dict" where
  "to_dict c =
     [(''action'', PStr (action c)),
      (''device_id'', PStr (device_id c)),
      (''params'', PDict (params c)),
      (''timestamp'', PStr (isoformat (timestamp c)))]"

text \<open>
  \<open>MockAgentState\<close>: the command log, the engine (\<open>None\<close> until a scenario is loaded)
  and the path of the last scenario asked for. The harness tests the engine with
  \<open>if self.state_machine\<close>; an engine object is taken to be truthy, so the test is
  \<open>state_machine \<noteq> None\<close>.
\<close>

record MockAgentState =
  commands :: "CommandRecord list"
  state_machine :: "StateMachine option"
  scenario_path :: "string option"

definition MockAgentState_init :: MockAgentState where
  "MockAgentState_init = \<lparr>commands = [], state_machine = None, scenario_path = None\<rparr>"

text \<open>\<open>MockAgentState.record(action, device_id, **params)\<close>, at clock reading \<open>now\<close>.\<close>

definition state_record :: "string \<Rightarrow> string \<Rightarrow> dict \<Rightarrow> datetime \<Rightarrow> MockAgentState \<Rightarrow> MockAgentState" where
  "state_record a d ps now s =
     s\<lparr>commands := commands s @ [\<lparr>action = a, device_id = d, params = ps, timestamp = now\<rparr>]\<rparr>"

definition state_reset :: "MockAgentState \<Rightarrow> MockAgentState" where
  "state_reset s = s\<lparr>commands := []\<rparr>"

text \<open>
  \<open>MockAgentState.load_scenario(path)\<close>. The loader \<open>load_test_case\<close> is a parameter: it
  returns a triple whose first component is the engine, or raises (\<open>Inl\<close>, with the text
  of the exception). Its module is taken to import, and the path is a \<open>str\<close>, as the
  endpoint passes it. The path is stored before the loader runs; when the loader raises,
  the assignment to \<open>state_machine\<close> never happens and the exception leaves the method
  with the state as it is then.
\<close>

definition state_load_scenario ::
  "(string \<Rightarrow> string + StateMachine \<times> 'a \<times> 'b) \<Rightarrow> string \<Rightarrow> MockAgentState \<Rightarrow> (string + unit) \<times> MockAgentState" where
  "state_load_scenario load_test_case path s =
     (let s1 = s\<lparr>scenario_path := Some path\<rparr>
      in case load_test_case path of
           Inl e \<Rightarrow> (Inl e, s1)
         | Inr (m, _, _) \<Rightarrow> (Inr (), s1\<lparr>state_machine := Some m\<rparr>))"

definition state_get_screenshot_data :: "MockAgentState \<Rightarrow> error + dict" where
  "state_get_screenshot_data s =
     (case state_machine s of
        Some m \<Rightarrow>
          (case get_current_screenshot m of
             None \<Rightarrow> Inl EngineError
           | Some r \<Rightarrow>
               Inr [(''base64_data'', PStr (base64_data r)),
                    (''width'', PInt (width r)),
                    (''height'', PInt (height r)),
                    (''is_sensitive'', PBool False)])
      | None \<Rightarrow>
          Inr [(''base64_data'', PStr []),
               (''width'', PInt 1080),
               (''height'', PInt 2400),
               (''is_sensitive'', PBool False)])"

definition state_get_current_app :: "MockAgentState \<Rightarrow> error + string" where
  "state_get_current_app s =
     (case state_machine s of
        Some m \<Rightarrow>
          (case current_state m of
             None \<Rightarrow> Inl EngineError
           | Some st \<Rightarrow> Inr (state_current_app st))
      | None \<Rightarrow> Inr ''com.mock.app'')"

section \<open>Request models\<close>

text \<open>
  The pydantic models, after validation and defaults: the handler sees every field.
\<close>

record TapRequest =
  tap_x :: int
  tap_y :: int
  tap_delay :: "pyfloat option"

record SwipeRequest =
  swipe_start_x :: int
  swipe_start_y :: int
  swipe_end_x :: int
  swipe_end_y :: int
  swipe_duration_ms :: "int option"
  swipe_delay :: "pyfloat option"

record LongPressRequest =
  press_x :: int
  press_y :: int
  press_duration_ms :: int
  press_delay :: "pyfloat option"

record TypeTextRequest =
  type_text_text :: string

record LaunchAppRequest =
  launch_app_name :: string
  launch_delay :: "pyfloat option"

record ScreenshotRequest =
  screenshot_timeout :: int

record LoadScenarioRequest =
  req_scenario_path :: string

definition opt_int :: "int option \<Rightarrow> pyval" where
  "opt_int i = (case i of None \<Rightarrow> PNone | Some n \<Rightarrow> PInt n)"

section \<open>The device-control endpoints\<close>

text \<open>
  An endpoint takes the state of the harness and returns its response, or the exception
  that leaves it, together with the state afterwards.
\<close>

type_synonym 'a result = "(error + 'a) \<times> MockAgentState"

definition status_ok :: dict where
  "status_ok = [(''status'', PStr ''ok'')]"

definition screenshot :: "string \<Rightarrow> ScreenshotRequest \<Rightarrow> datetime \<Rightarrow> MockAgentState \<Rightarrow> dict result" where
  "screenshot device req now s =
     (let s1 = state_record ''screenshot'' device [(''timeout'', PInt (screenshot_timeout req))] now s
      in (state_get_screenshot_data s1, s1))"

definition tap :: "string \<Rightarrow> TapRequest \<Rightarrow> datetime \<Rightarrow> MockAgentState \<Rightarrow> dict result" where
  "tap device req now s =
     (let s1 = state_record ''tap'' device
                 [(''x'', PInt (tap_x req)), (''y'', PInt (tap_y req)),
                  (''delay'', opt_float (tap_delay req))] now s;
          s2 = (case state_machine s1 of
                  Some m \<Rightarrow> s1\<lparr>state_machine := Some (snd (handle_tap m (tap_x req) (tap_y req)))\<rparr>
                | None \<Rightarrow> s1)
      in (Inr status_ok, s2))"

definition double_tap :: "string \<Rightarrow> TapRequest \<Rightarrow> datetime \<Rightarrow> MockAgentState \<Rightarrow> dict result" where
  "double_tap device req now s =
     (let s1 = state_record ''double_tap'' device
                 [(''x'', PInt (tap_x req)), (''y'', PInt (tap_y req)),
                  (''delay'', opt_float (tap_delay req))] now s;
          s2 = (case state_machine s1 of
                  Some m \<Rightarrow> s1\<lparr>state_machine := Some (snd (handle_tap m (tap_x req) (tap_y req)))\<rparr>
                | None \<Rightarrow> s1)
      in (Inr status_ok, s2))"

definition long_press :: "string \<Rightarrow> LongPressRequest \<Rightarrow> datetime \<Rightarrow> MockAgentState \<Rightarrow> dict result" where
  "long_press device req now s =
     (let s1 = state_record ''long_press'' device
                 [(''x'', PInt (press_x req)), (''y'', PInt (press_y req)),
                  (''duration_ms'', PInt (press_duration_ms req)),
                  (''delay'', opt_float (press_delay req))] now s;
          s2 = (case state_machine s1 of
                  Some m \<Rightarrow> s1\<lparr>state_machine := Some (snd (handle_tap m (press_x req) (press_y req)))\<rparr>
                | None \<Rightarrow> s1)
      in (Inr status_ok, s2))"

definition swipe :: "string \<Rightarrow> SwipeRequest \<Rightarrow> datetime \<Rightarrow> MockAgentState \<Rightarrow> dict result" where
  "swipe device req now s =
     (let s1 = state_record ''swipe'' device
                 [(''start_x'', PInt (swipe_start_x req)), (''start_y'', PInt (swipe_start_y req)),
                  (''end_x'', PInt (swipe_end_x req)), (''end_y'', PInt (swipe_end_y req)),
                  (''duration_ms'', opt_int (swipe_duration_ms req)),
                  (''delay'', opt_float (swipe_delay req))] now s;
          s2 = (case state_machine s1 of
                  Some m \<Rightarrow>
                    s1\<lparr>state_machine :=
                         Some (snd (handle_swipe m (swipe_start_x req) (swipe_start_y req)
                                      (swipe_end_x req) (swipe_end_y req)))\<rparr>
                | None \<Rightarrow> s1)
      in (Inr status_ok, s2))"

definition type_text :: "string \<Rightarrow> TypeTextRequest \<Rightarrow> datetime \<Rightarrow> MockAgentState \<Rightarrow> dict result" where
  "type_text device req now s =
     (Inr status_ok, state_record ''type_text'' device [(''text'', PStr (type_text_text req))] now s)"

definition clear_text :: "string \<Rightarrow> datetime \<Rightarrow> MockAgentState \<Rightarrow> dict result" where
  "clear_text device now s = (Inr status_ok, state_record ''clear_text'' device [] now s)"

definition back_verb :: "string \<Rightarrow> pyfloat option \<Rightarrow> datetime \<Rightarrow> MockAgentState \<Rightarrow> dict result" where
  "back_verb device delay now s =
     (Inr status_ok, state_record ''back'' device [(''delay'', opt_float delay)] now s)"

definition home :: "string \<Rightarrow> pyfloat option \<Rightarrow> datetime \<Rightarrow> MockAgentState \<Rightarrow> dict result" where
  "home device delay now s =
     (Inr status_ok, state_record ''home'' device [(''delay'', opt_float delay)] now s)"

definition launch_app :: "string \<Rightarrow> LaunchAppRequest \<Rightarrow> datetime \<Rightarrow> MockAgentState \<Rightarrow> dict result" where
  "launch_app device req now s =
     (Inr [(''status'', PStr ''ok''), (''success'', PBool True)],
      state_record ''launch_app'' device
        [(''app_name'', PStr (launch_app_name req)), (''delay'', opt_float (launch_delay req))] now s)"

definition current_app :: "string \<Rightarrow> datetime \<Rightarrow> MockAgentState \<Rightarrow> dict result" where
  "current_app device now s =
     (let s1 = state_record ''get_current_app'' device [] now s
      in (case state_get_current_app s1 of
            Inl e \<Rightarrow> Inl e
          | Inr a \<Rightarrow> Inr [(''app_name'', PStr a)], s1))"

definition detect_keyboard :: "string \<Rightarrow> datetime \<Rightarrow> MockAgentState \<Rightarrow> dict result" where
  "detect_keyboard device now s =
     (Inr [(''original_ime'', PStr ''com.mock.keyboard'')],
      state_record ''detect_keyboard'' device [] now s)"

definition restore_keyboard :: "string \<Rightarrow> string \<Rightarrow> datetime \<Rightarrow> MockAgentState \<Rightarrow> dict result" where
  "restore_keyboard device ime now s =
     (Inr status_ok, state_record ''restore_keyboard'' device [(''ime'', PStr ime)] now s)"

subsection \<open>The routes\<close>

text \<open>
  One call of a device-control verb: the route \<open>/device/{device_id}/<verb>\<close> with its
  request. \<open>verb_name\<close> is the last segment of the route, \<open>verb_params\<close> the fields of the
  request, and \<open>call_verb\<close> the handler registered for the route.
\<close>

datatype verb_call =
    Post_screenshot ScreenshotRequest
  | Post_tap TapRequest
  | Post_double_tap TapRequest
  | Post_long_press LongPressRequest
  | Post_swipe SwipeRequest
  | Post_type_text TypeTextRequest
  | Post_clear_text
  | Post_back "pyfloat option"
  | Post_home "pyfloat option"
  | Post_launch_app LaunchAppRequest
  | Get_current_app
  | Post_detect_keyboard
  | Post_restore_keyboard string

fun verb_name :: "verb_call \<Rightarrow> string" where
  "verb_name (Post_screenshot _) = ''screenshot''"
| "verb_name (Post_tap _) = ''tap''"
| "verb_name (Post_double_tap _) = ''double_tap''"
| "verb_name (Post_long_press _) = ''long_press''"
| "verb_name (Post_swipe _) = ''swipe''"
| "verb_name (Post_type_text _) = ''type_text''"
| "verb_name Post_clear_text = ''clear_text''"
| "verb_name (Post_back _) = ''back''"
| "verb_name (Post_home _) = ''home''"
| "verb_name (Post_launch_app _) = ''launch_app''"
| "verb_name Get_current_app = ''current_app''"
| "verb_name Post_detect_keyboard = ''detect_keyboard''"
| "verb_name (Post_restore_keyboard _) = ''restore_keyboard''"

fun verb_params :: "verb_call \<Rightarrow> dict" where
  "verb_params (Post_screenshot r) = [(''timeout'', PInt (screenshot_timeout r))]"
| "verb_params (Post_tap r) =
     [(''x'', PInt (tap_x r)), (''y'', PInt (tap_y r)), (''delay'', opt_float (tap_delay r))]"
| "verb_params (Post_double_tap r) =
     [(''x'', PInt (tap_x r)), (''y'', PInt (tap_y r)), (''delay'', opt_float (tap_delay r))]"
| "verb_params (Post_long_press r) =
     [(''x'', PInt (press_x r)), (''y'', PInt (press_y r)),
      (''duration_ms'', PInt (press_duration_ms r)), (''delay'', opt_float (press_delay r))]"
| "verb_params (Post_swipe r) =
     [(''start_x'', PInt (swipe_start_x r)), (''start_y'', PInt (swipe_start_y r)),
      (''end_x'', PInt (swipe_end_x r)), (''end_y'', PInt (swipe_end_y r)),
      (''duration_ms'', opt_int (swipe_duration_ms r)), (''delay'', opt_float (swipe_delay r))]"
| "verb_params (Post_type_text r) = [(''text'', PStr (type_text_text r))]"
| "verb_params Post_clear_text = []"
| "verb_params (Post_back d) = [(''delay'', opt_float d)]"
| "verb_params (Post_home d) = [(''delay'', opt_float d)]"
| "verb_params (Post_launch_app r) =
     [(''app_name'', PStr (launch_app_name r)), (''delay'', opt_float (launch_delay r))]"
| "verb_params Get_current_app = []"
| "verb_params Post_detect_keyboard = []"
| "verb_params (Post_restore_keyboard i) = [(''ime'', PStr i)]"

fun call_verb :: "verb_call \<Rightarrow> string \<Rightarrow> datetime \<Rightarrow> MockAgentState \<Rightarrow> dict result" where
  "call_verb (Post_screenshot r) device now s = screenshot device r now s"
| "call_verb (Post_tap r) device now s = tap device r now s"
| "call_verb (Post_double_tap r) device now s = double_tap device r now s"
| "call_verb (Post_long_press r) device now s = long_press device r now s"
| "call_verb (Post_swipe r) device now s = swipe device r now s"
| "call_verb (Post_type_text r) device now s = type_text device r now s"
| "call_verb Post_clear_text device now s = clear_text device now s"
| "call_verb (Post_back d) device now s = back_verb device d now s"
| "call_verb (Post_home d) device now s = home device d now s"
| "call_verb (Post_launch_app r) device now s = launch_app device r now s"
| "call_verb Get_current_app device now s = current_app device now s"
| "call_verb Post_detect_keyboard device now s = detect_keyboard device now s"
| "call_verb (Post_restore_keyboard i) device now s = restore_keyboard device i now s"

section \<open>The test-control endpoints\<close>

definition get_commands :: "MockAgentState \<Rightarrow> dict list result" where
  "get_commands s = (Inr (map to_dict (commands s)), s)"

definition get_command_actions :: "MockAgentState \<Rightarrow> dict list result" where
  "get_command_actions s =
     (Inr (map (\<lambda>cmd. dict_merge [(''action'', PStr (action cmd))] (params cmd)) (commands s)), s)"

definition reset :: "MockAgentState \<Rightarrow> dict result" where
  "reset s = (Inr [(''status'', PStr ''reset''), (''commands_cleared'', PBool True)], state_reset s)"

text \<open>
  \<open>load_scenario\<close>: any exception of the method becomes \<open>HTTPException(400, ...)\<close>; the
  state is the one the method left.
\<close>

definition load_scenario ::
  "(string \<Rightarrow> string + StateMachine \<times> 'a \<times> 'b) \<Rightarrow> LoadScenarioRequest \<Rightarrow> MockAgentState \<Rightarrow> dict result" where
  "load_scenario load_test_case req s =
     (case state_load_scenario load_test_case (req_scenario_path req) s of
        (Inl e, s1) \<Rightarrow> (Inl (HTTPException 400 (''Failed to load scenario: '' @ e)), s1)
      | (Inr _, s1) \<Rightarrow>
          (Inr [(''status'', PStr ''loaded''),
                (''scenario'', PStr (req_scenario_path req)),
                (''states'',
                   PList (case state_machine s1 of
                            Some m \<Rightarrow> map (\<lambda>kv. PStr (fst kv)) (states m)
                          | None \<Rightarrow> []))],
           s1))"

definition get_state :: "MockAgentState \<Rightarrow> dict result" where
  "get_state s =
     (case state_machine s of
        None \<Rightarrow> (Inr [(''current_state'', PNone), (''history'', PList [])], s)
      | Some m \<Rightarrow>
          (Inr [(''current_state'', PStr (current_state_id m)),
                (''history'', PList (map PStr (state_history m)))],
           s))"

definition expect_commands :: "string \<Rightarrow> MockAgentState \<Rightarrow> dict result" where
  "expect_commands actions s =
     (let expected = map strip (split CHR '','' actions);
          actual = map action (commands s);
          match = (actual = expected)
      in (Inr [(''match'', PBool match),
               (''expected'', PList (map PStr expected)),
               (''actual'', PList (map PStr actual)),
               (''message'',
                  PStr (if match then ''Commands match!''
                        else ''Mismatch: expected '' @ repr_list expected @ '', got '' @ repr_list actual))],
          s))"

section \<open>The test client\<close>

text \<open>
  \<open>MockAgentTestClient\<close> talks to the harness over HTTP. What a handler returns is
  rendered as JSON by the web framework; when it holds a float that is not finite the
  rendering fails, the request is answered with status 500 and a body that is not JSON,
  and \<open>resp.json()\<close> raises \<open>JSONDecodeError\<close> in the client. An exception leaving a
  handler (neither handler below raises one) ends in a 500 as well. Any other response
  reaches the client as the handler returned it. \<open>enc\<close> is the JSON value of the
  handler's result.
\<close>

definition resp_json :: "('a \<Rightarrow> pyval) \<Rightarrow> error + 'a \<Rightarrow> error + 'a" where
  "resp_json enc r =
     (case r of
        Inr v \<Rightarrow> if json_ok (enc v) then Inr v else Inl JSONDecodeError
      | Inl e \<Rightarrow> Inl JSONDecodeError)"

definition get_actions :: "MockAgentState \<Rightarrow> error + dict list" where
  "get_actions s = resp_json (\<lambda>ds. PList (map PDict ds)) (fst (get_command_actions s))"

text \<open>\<open>expect(actions)\<close> sends the names joined by commas.\<close>

definition expect :: "string list \<Rightarrow> MockAgentState \<Rightarrow> error + dict" where
  "expect actions s = resp_json PDict (fst (expect_commands (join '','' actions) s))"

text \<open>\<open>[a for a in actions if a["action"] == "tap"]\<close>\<close>

fun select_taps :: "dict list \<Rightarrow> error + dict list" where
  "select_taps [] = Inr []"
| "select_taps (a # as) =
     (case getitem a ''action'' of
        Inl e \<Rightarrow> Inl e
      | Inr v \<Rightarrow>
          (case select_taps as of
             Inl e \<Rightarrow> Inl e
           | Inr ts \<Rightarrow> Inr (if v = PStr ''tap'' then a # ts else ts)))"

text \<open>\<open>xs[i]\<close>: a negative index counts from the end.\<close>

definition py_index :: "'a list \<Rightarrow> int \<Rightarrow> error + 'a" where
  "py_index xs i =
     (if 0 \<le> i \<and> i < int (length xs) then Inr (xs ! nat i)
      else if i < 0 \<and> - int (length xs) \<le> i then Inr (xs ! nat (int (length xs) + i))
      else Inl IndexError)"

text \<open>
  The value compared in \<open>x1 <= x <= x2\<close>. The harness records \<open>x\<close> and \<open>y\<close> from \<open>int\<close>
  fields, so only that case is computed. Python raises \<open>TypeError\<close> when an \<open>int\<close> is
  compared with \<open>None\<close>, a \<open>str\<close>, a \<open>list\<close> or a \<open>dict\<close>; a \<open>bool\<close> or a \<open>float\<close> there
  would compare as a number, which this model does not follow (\<open>Unmodelled\<close>).
\<close>

datatype 'a outcome = Raised error | Unmodelled | Returned 'a

definition as_int :: "pyval \<Rightarrow> int outcome" where
  "as_int v =
     (case v of
        PInt i \<Rightarrow> Returned i
      | PBool _ \<Rightarrow> Unmodelled
      | PFloat _ \<Rightarrow> Unmodelled
      | _ \<Rightarrow> Raised TypeError)"

definition lift :: "error + 'a \<Rightarrow> 'a outcome" where
  "lift r = (case r of Inl e \<Rightarrow> Raised e | Inr v \<Rightarrow> Returned v)"

definition bind :: "'a outcome \<Rightarrow> ('a \<Rightarrow> 'b outcome) \<Rightarrow> 'b outcome" where
  "bind r f = (case r of Raised e \<Rightarrow> Raised e | Unmodelled \<Rightarrow> Unmodelled | Returned v \<Rightarrow> f v)"

definition py_assert :: "bool \<Rightarrow> string \<Rightarrow> unit outcome" where
  "py_assert b msg = (if b then Returned () else Raised (AssertionError msg))"

definition assert_tap_in_region :: "MockAgentState \<Rightarrow> int \<Rightarrow> int \<Rightarrow> int \<Rightarrow> int \<Rightarrow> int \<Rightarrow> unit outcome" where
  "assert_tap_in_region s x1 y1 x2 y2 index =
     bind (lift (get_actions s)) (\<lambda>actions.
     bind (lift (select_taps actions)) (\<lambda>taps.
     bind (py_assert (int (length taps) > index)
             (''Expected at least '' @ str_int (index + 1) @ '' tap(s), got '' @
              str_nat (length taps))) (\<lambda>_.
     bind (lift (py_index taps index)) (\<lambda>t.
     bind (lift (getitem t ''x'')) (\<lambda>xv.
     bind (lift (getitem t ''y'')) (\<lambda>yv.
     bind (as_int xv) (\<lambda>x.
     bind (py_assert (x1 \<le> x \<and> x \<le> x2)
             (''Tap x='' @ str_int x @ '' not in range ['' @ str_int x1 @ '', '' @
              str_int x2 @ '']'')) (\<lambda>_.
     bind (as_int yv) (\<lambda>y.
     py_assert (y1 \<le> y \<and> y \<le> y2)
       (''Tap y='' @ str_int y @ '' not in range ['' @ str_int y1 @ '', '' @
        str_int y2 @ '']''))))))))))"

section \<open>Vocabulary of the properties\<close>

text \<open>A run of \<open>record\<close> calls, each with its arguments and its clock reading.\<close>

type_synonym record_call = "string \<times> string \<times> dict \<times> datetime"

definition entry :: "record_call \<Rightarrow> CommandRecord" where
  "entry c = (case c of (a, d, ps, now) \<Rightarrow> \<lparr>action = a, device_id = d, params = ps, timestamp = now\<rparr>)"

fun record_calls :: "record_call list \<Rightarrow> MockAgentState \<Rightarrow> MockAgentState" where
  "record_calls [] s = s"
| "record_calls ((a, d, ps, now) # cs) s = record_calls cs (state_record a d ps now s)"

text \<open>The taps of the log, and the coordinates a tap was recorded with.\<close>

definition recorded_taps :: "MockAgentState \<Rightarrow> CommandRecord list" where
  "recorded_taps s = filter (\<lambda>c. action c = ''tap'') (commands s)"

definition coords :: "CommandRecord \<Rightarrow> (int \<times> int) option" where
  "coords c =
     (case (map_of (params c) ''x'', map_of (params c) ''y'') of
        (Some (PInt x), Some (PInt y)) \<Rightarrow> Some (x, y)
      | _ \<Rightarrow> None)"

text \<open>
  What every entry written by an endpoint satisfies: its parameters are a dict (distinct
  keys) without a key \<open>action\<close>, and a tap carries integer coordinates.
\<close>

definition record_wf :: "CommandRecord \<Rightarrow> bool" where
  "record_wf c =
     (distinct (map fst (params c)) \<and> ''action'' \<notin> set (map fst (params c)) \<and>
      (if action c = ''tap'' then coords c \<noteq> None else True))"

text \<open>
  One request to the harness, device-control or test-control, and the state it leaves;
  \<open>run\<close> serves a sequence of requests in order.
\<close>

type_synonym loader = "string \<Rightarrow> string + StateMachine \<times> unit \<times> unit"

datatype request =
    Device verb_call string datetime
  | Get_commands
  | Get_command_actions
  | Post_reset
  | Post_load_scenario LoadScenarioRequest
  | Get_state
  | Get_expect string

fun serve :: "loader \<Rightarrow> request \<Rightarrow> MockAgentState \<Rightarrow> MockAgentState" where
  "serve ld (Device c d now) s = snd (call_verb c d now s)"
| "serve ld Get_commands s = snd (get_commands s)"
| "serve ld Get_command_actions s = snd (get_command_actions s)"
| "serve ld Post_reset s = snd (reset s)"
| "serve ld (Post_load_scenario r) s = snd (load_scenario ld r s)"
| "serve ld Get_state s = snd (get_state s)"
| "serve ld (Get_expect a) s = snd (expect_commands a s)"

fun run :: "loader \<Rightarrow> request list \<Rightarrow> MockAgentState \<Rightarrow> MockAgentState" where
  "run ld [] s = s"
| "run ld (r # rs) s = run ld rs (serve ld r s)"

section \<open>A concrete scenario\<close>

text \<open>
  The scenario of section 8 of the specification: on \<open>home\<close>, a tap in
  \<open>[487, 2516, 721, 2667]\<close> leads to \<open>message\<close>. The loader knows this one path and raises
  on any other.
\<close>

definition clock0 :: datetime where
  "clock0 = \<lparr>year = 2026, month = 1, day = 2, hour = 3, minute = 4, second = 5, microsecond = 0\<rparr>"

definition meituan :: StateMachine where
  "meituan =
     \<lparr>states =
        [(''home'',
          \<lparr>state_id = ''home'',
            state_screenshot = \<lparr>base64_data = ''aG9tZQ=='', width = 1200, height = 2670\<rparr>,
            state_current_app = ''com.sankuai.meituan'',
            transitions =
              [\<lparr>kind = Tap, matchRegion = (487, 2516, 721, 2667), targetStateId = ''message''\<rparr>]\<rparr>),
         (''message'',
          \<lparr>state_id = ''message'',
            state_screenshot = \<lparr>base64_data = ''bWVzc2FnZQ=='', width = 1200, height = 2670\<rparr>,
            state_current_app = ''com.sankuai.meituan'',
            transitions = []\<rparr>)],
      initial_state_id = ''home'',
      current_state_id = ''home'',
      state_history = [''home'']\<rparr>"

definition meituan_loader :: loader where
  "meituan_loader path =
     (if path = ''scenarios/meituan_message/scenario.yaml'' then Inr (meituan, (), ())
      else Inl ''scenario not found'')"

definition loaded :: MockAgentState where
  "loaded =
     \<lparr>commands = [], state_machine = Some meituan,
      scenario_path = Some ''scenarios/meituan_message/scenario.yaml''\<rparr>"

definition tap_600_2590 :: TapRequest where
  "tap_600_2590 = \<lparr>tap_x = 600, tap_y = 2590, tap_delay = None\<rparr>"

text \<open>The same tap with \<open>delay = 0.5\<close>.\<close>

definition tap_delayed :: TapRequest where
  "tap_delayed = \<lparr>tap_x = 600, tap_y = 2590, tap_delay = Some 0x3FE0000000000000\<rparr>"

definition swipe_up :: SwipeRequest where
  "swipe_up =
     \<lparr>swipe_start_x = 600, swipe_start_y = 2000, swipe_end_x = 600, swipe_end_y = 800,
      swipe_duration_ms = None, swipe_delay = None\<rparr>"

text \<open>The entry of \<open>GET /test/commands/actions\<close> for one record.\<close>

definition entry_action :: "CommandRecord \<Rightarrow> dict" where
  "entry_action cmd = dict_merge [(''action'', PStr (action cmd))] (params cmd)"

text \<open>
  An action name that survives the query string of \<open>expect\<close>: no comma in it and no
  whitespace around it.
\<close>

definition plain_name :: "string \<Rightarrow> bool" where
  "plain_name e = (CHR '','' \<notin> set e \<and> strip e = e)"

text \<open>A log the harness can render: no recorded parameter is a float that is not finite.\<close>

definition finite_log :: "MockAgentState \<Rightarrow> bool" where
  "finite_log s = list_all (\<lambda>c. json_ok (PDict (params c))) (commands s)"

text \<open>The bit pattern of a NaN, as \<open>float("nan")\<close> gives it.\<close>

definition nan :: pyfloat where
  "nan = 0x7FF8000000000000"

section \<open>Basic facts\<close>

lemma commands_state_record [simp]:
  "commands (state_record a d ps now s) =
     commands s @ [\<lparr>action = a, device_id = d, params = ps, timestamp = now\<rparr>]"
  by (simp add: state_record_def)

lemma state_machine_state_record [simp]:
  "state_machine (state_record a d ps now s) = state_machine s"
  by (simp add: state_record_def)

lemma scenario_path_state_record [simp]:
  "scenario_path (state_record a d ps now s) = scenario_path s"
  by (simp add: state_record_def)

lemmas verb_defs =
  screenshot_def tap_def double_tap_def long_press_def swipe_def type_text_def clear_text_def
  back_verb_def home_def launch_app_def current_app_def detect_keyboard_def restore_keyboard_def

lemma commands_call_verb:
  "commands (snd (call_verb c d now s)) =
     commands s @
       [\<lparr>action = (if c = Get_current_app then ''get_current_app'' else verb_name c),
         device_id = d, params = verb_params c, timestamp = now\<rparr>]"
  by (cases c) (simp_all add: verb_defs Let_def split: option.split)

lemma commands_record_calls: "commands (record_calls cs s) = commands s @ map entry cs"
  by (induction cs s rule: record_calls.induct) (simp_all add: entry_def)

lemma split_not_Nil: "split sep s \<noteq> []"
  by (induction s) (auto split: list.split)

lemma split_no_sep: "sep \<notin> set s \<Longrightarrow> split sep s = [s]"
  by (induction s) auto

lemma split_append_sep:
  "sep \<notin> set s \<Longrightarrow> split sep (s @ sep # rest) = s # split sep rest"
  by (induction s) auto

lemma split_join:
  assumes "es \<noteq> []" and "list_all (\<lambda>e. sep \<notin> set e) es"
  shows "split sep (join [sep] es) = es"
  using assms
proof (induction "[sep]" es rule: join.induct)
  case 1
  then show ?case by simp
next
  case (2 s)
  then show ?case by (simp add: split_no_sep)
next
  case (3 s t ss)
  then show ?case by (simp add: split_append_sep)
qed

lemma expected_of_join:
  assumes "es \<noteq> []" and "list_all plain_name es"
  shows "map strip (split CHR '','' (join '','' es)) = es"
proof -
  have "list_all (\<lambda>e. CHR '','' \<notin> set e) es"
    using assms(2) by (induction es) (simp_all add: plain_name_def)
  then have "split CHR '','' (join '','' es) = es"
    using assms(1) by (simp add: split_join)
  moreover have "map strip es = es"
    using assms(2) by (induction es) (simp_all add: plain_name_def)
  ultimately show ?thesis by simp
qed

subsection \<open>What \<open>split\<close> and \<open>strip\<close> compute\<close>

lemma join_Cons_Cons: "join sep ((c # w) # ws) = c # join sep (w # ws)"
  by (cases ws) simp_all

lemma join_split: "join [sep] (split sep s) = s"
proof (induction s)
  case Nil
  show ?case by simp
next
  case (Cons c cs)
  obtain w ws where ws: "split sep cs = w # ws"
    using split_not_Nil [of sep cs] by (cases "split sep cs") auto
  show ?case
    using Cons.IH by (simp add: ws join_Cons_Cons)
qed

lemma split_pieces: "list_all (\<lambda>w. sep \<notin> set w) (split sep s)"
  by (induction s) (auto split: list.split)

lemma length_split: "length (split sep s) = Suc (count_list s sep)"
  by (induction s) (auto split: list.split)

lemma rev_drop_take: "rev (dropWhile P (rev t)) @ rev (takeWhile P (rev t)) = t"
proof -
  have "rev (takeWhile P (rev t) @ dropWhile P (rev t)) = t"
    by (simp only: takeWhile_dropWhile_id rev_rev_ident)
  then show ?thesis by (simp only: rev_append)
qed

lemma dropWhile_fixed: "xs = [] \<or> \<not> P (hd xs) \<Longrightarrow> dropWhile P xs = xs"
  by (cases xs) simp_all

lemma strip_tail:
  "dropWhile isspace w = strip w @ rev (takeWhile isspace (rev (dropWhile isspace w)))"
  unfolding strip_def by (rule rev_drop_take [symmetric])

lemma strip_decomp:
  "w = takeWhile isspace w @ strip w @ rev (takeWhile isspace (rev (dropWhile isspace w)))"
proof -
  have "w = takeWhile isspace w @ dropWhile isspace w"
    by (simp only: takeWhile_dropWhile_id)
  also have "dropWhile isspace w =
      strip w @ rev (takeWhile isspace (rev (dropWhile isspace w)))"
    by (rule strip_tail)
  finally show ?thesis .
qed

lemma strip_edges:
  "strip w = [] \<or> (\<not> isspace (hd (strip w)) \<and> \<not> isspace (last (strip w)))"
proof (cases "strip w = []")
  case True
  then show ?thesis by simp
next
  case False
  let ?t = "dropWhile isspace w"
  let ?u = "dropWhile isspace (rev ?t)"
  have u: "strip w = rev ?u" by (simp add: strip_def)
  with False have une: "?u \<noteq> []" by simp
  then have "\<not> isspace (hd ?u)" by (rule hd_dropWhile)
  then have l: "\<not> isspace (last (strip w))"
    using une by (simp add: u last_rev)
  have tne: "?t \<noteq> []"
    using False strip_tail [of w] by (metis append_is_Nil_conv)
  then have "\<not> isspace (hd ?t)" by (rule hd_dropWhile)
  moreover have "hd ?t = hd (strip w)"
    using False strip_tail [of w] by (metis hd_append2)
  ultimately show ?thesis using l by simp
qed

lemma strip_fixed:
  assumes "e = [] \<or> (\<not> isspace (hd e) \<and> \<not> isspace (last e))"
  shows "strip e = e"
proof (cases "e = []")
  case True
  then show ?thesis by (simp add: strip_def)
next
  case False
  with assms have h: "\<not> isspace (hd e)" and l: "\<not> isspace (last e)" by simp_all
  have 1: "dropWhile isspace e = e"
    using h by (simp add: dropWhile_fixed)
  have "\<not> isspace (hd (rev e))" using False l by (simp add: hd_rev)
  then have 2: "dropWhile isspace (rev e) = rev e"
    by (simp add: dropWhile_fixed)
  show ?thesis by (simp add: strip_def 1 2)
qed

lemma strip_idem: "strip (strip w) = strip w"
  by (rule strip_fixed) (rule strip_edges)

lemma set_strip: "set (strip w) \<subseteq> set w"
proof -
  have "set (strip w) \<subseteq> set (dropWhile isspace w)"
    unfolding strip_def by (metis set_dropWhileD set_rev subsetI)
  also have "\<dots> \<subseteq> set w" by (auto dest: set_dropWhileD)
  finally show ?thesis .
qed

lemma parsed_names_plain: "list_all plain_name (map strip (split CHR '','' s))"
proof -
  have "list_all (\<lambda>w. CHR '','' \<notin> set w) (split CHR '','' s)"
    by (rule split_pieces)
  then show ?thesis
    using set_strip by (induction "split CHR '','' s") (auto simp: plain_name_def strip_idem list_all_iff)
qed

lemma join_roundtrip_iff:
  "map strip (split CHR '','' (join '','' es)) = es \<longleftrightarrow> es \<noteq> [] \<and> list_all plain_name es"
proof
  assume eq: "map strip (split CHR '','' (join '','' es)) = es"
  have "es \<noteq> []"
    using eq split_not_Nil [of "CHR '',''" "join '','' es"] by auto
  moreover have "list_all plain_name es"
    using parsed_names_plain [of "join '','' es"] by (simp add: eq)
  ultimately show "es \<noteq> [] \<and> list_all plain_name es" by simp
next
  assume "es \<noteq> [] \<and> list_all plain_name es"
  then show "map strip (split CHR '','' (join '','' es)) = es"
    by (simp add: expected_of_join)
qed

lemma isspace_chars:
  "isspace c \<longleftrightarrow>
     c \<in> set [CHR 0x09, CHR 0x0A, CHR 0x0B, CHR 0x0C, CHR 0x0D, CHR 0x1C, CHR 0x1D, CHR 0x1E,
               CHR 0x1F, CHR 0x20, CHR 0x85, CHR 0xA0]"
proof -
  have eq: "\<And>d. (c = d) = ((of_char c :: nat) = of_char d)"
    by simp
  show ?thesis
    unfolding isspace_def Let_def
    by (simp add: eq) arith
qed

subsection \<open>Dicts\<close>

lemma map_of_dict_set: "map_of (dict_set k v d) = (map_of d)(k \<mapsto> v)"
  by (induction d) (auto simp: fun_eq_iff)

lemma map_of_foldl_dict_set:
  "map_of (foldl (\<lambda>d (k, v). dict_set k v d) b e) = map_of b ++ map_of (rev e)"
proof (induction e arbitrary: b)
  case Nil
  show ?case by simp
next
  case (Cons p e)
  obtain k v where p: "p = (k, v)" by (cases p)
  show ?case
    by (simp add: Cons.IH p map_of_dict_set fun_eq_iff map_add_def split: option.split)
qed

lemma map_of_rev_distinct: "distinct (map fst e) \<Longrightarrow> map_of (rev e) = map_of e"
  by (rule map_of_inject_set [THEN iffD2]) (simp_all add: rev_map [symmetric])

lemma map_of_dict_merge:
  "distinct (map fst e) \<Longrightarrow> map_of (dict_merge b e) = map_of b ++ map_of e"
  by (simp add: dict_merge_def map_of_foldl_dict_set map_of_rev_distinct)

lemma dict_set_fresh: "k \<notin> set (map fst d) \<Longrightarrow> dict_set k v d = d @ [(k, v)]"
  by (induction d) auto

lemma foldl_dict_set_fresh:
  "distinct (map fst e) \<Longrightarrow> set (map fst e) \<inter> set (map fst b) = {} \<Longrightarrow>
   foldl (\<lambda>d (k, v). dict_set k v d) b e = b @ e"
proof (induction e arbitrary: b)
  case Nil
  show ?case by simp
next
  case (Cons p e)
  obtain k v where p: "p = (k, v)" by (cases p)
  from Cons.prems have fresh: "k \<notin> set (map fst b)"
    by (auto simp: p)
  from Cons.prems have "distinct (map fst e)"
    and "set (map fst e) \<inter> set (map fst (b @ [(k, v)])) = {}"
    by (auto simp: p)
  then have "foldl (\<lambda>d (k, v). dict_set k v d) (b @ [(k, v)]) e = (b @ [(k, v)]) @ e"
    by (rule Cons.IH)
  then show ?case
    by (simp add: p dict_set_fresh [OF fresh])
qed

subsection \<open>Every entry the harness writes is well formed\<close>

lemma record_wf_verb:
  "record_wf \<lparr>action = (if c = Get_current_app then ''get_current_app'' else verb_name c),
       device_id = d, params = verb_params c, timestamp = now\<rparr>"
  by (cases c) (simp_all add: record_wf_def coords_def)

lemma serve_wf:
  "list_all record_wf (commands s) \<Longrightarrow> list_all record_wf (commands (serve ld r s))"
  by (cases r)
     (simp_all add: commands_call_verb record_wf_verb get_commands_def get_command_actions_def
        reset_def state_reset_def load_scenario_def state_load_scenario_def get_state_def
        expect_commands_def Let_def split: sum.split option.split prod.split)

lemma run_wf:
  "list_all record_wf (commands s) \<Longrightarrow> list_all record_wf (commands (run ld rs s))"
  by (induction rs arbitrary: s) (simp_all add: serve_wf)

lemma run_init_wf: "list_all record_wf (commands (run ld rs MockAgentState_init))"
  by (rule run_wf) (simp add: MockAgentState_init_def)

subsection \<open>The client's view of a well-formed log\<close>

lemma entry_action_wf:
  assumes "record_wf c"
  shows "entry_action c = (''action'', PStr (action c)) # params c"
  using assms foldl_dict_set_fresh [of "params c" "[(''action'', PStr (action c))]"]
  by (simp add: entry_action_def dict_merge_def record_wf_def)

lemma json_ok_entries:
  assumes "list_all record_wf cs"
  shows "list_all json_ok (map PDict (map entry_action cs)) =
           list_all (\<lambda>c. json_ok (PDict (params c))) cs"
  using assms by (induction cs) (simp_all add: entry_action_wf)

lemma get_actions_entries:
  assumes "list_all record_wf (commands s)"
  shows "get_actions s =
           (if finite_log s then Inr (map entry_action (commands s)) else Inl JSONDecodeError)"
proof -
  have "fst (get_command_actions s) = Inr (map entry_action (commands s))"
    by (simp add: get_command_actions_def entry_action_def)
  then show ?thesis
    using json_ok_entries [OF assms] by (simp add: get_actions_def resp_json_def finite_log_def)
qed

lemma json_ok_names: "list_all json_ok (map PStr xs)"
  by (induction xs) simp_all

lemma json_ok_names_comp: "list_all json_ok (map (PStr \<circ> f) xs)"
  by (induction xs) simp_all

lemma getitem_action:
  assumes "record_wf c"
  shows "getitem (entry_action c) ''action'' = Inr (PStr (action c))"
proof -
  from assms have d: "distinct (map fst (params c))"
    and n: "''action'' \<notin> set (map fst (params c))"
    by (simp_all add: record_wf_def)
  from n have "map_of (params c) ''action'' = None"
    by (simp add: map_of_eq_None_iff)
  with d show ?thesis
    by (simp add: getitem_def entry_action_def map_of_dict_merge map_add_def)
qed

lemma getitem_param:
  assumes "record_wf c" and "k \<noteq> ''action''"
  shows "getitem (entry_action c) k = getitem (params c) k"
proof -
  from assms have d: "distinct (map fst (params c))"
    by (simp add: record_wf_def)
  with assms(2) show ?thesis
    by (simp add: getitem_def entry_action_def map_of_dict_merge map_add_def split: option.split)
qed

lemma select_taps_entries:
  "list_all record_wf cs \<Longrightarrow>
   select_taps (map entry_action cs) = Inr (map entry_action (filter (\<lambda>c. action c = ''tap'') cs))"
  by (induction cs) (simp_all add: getitem_action)

lemma coords_getitem:
  assumes "coords c = Some (x, y)"
  shows "getitem (params c) ''x'' = Inr (PInt x)" and "getitem (params c) ''y'' = Inr (PInt y)"
  using assms
  by (auto simp: coords_def getitem_def split: option.splits pyval.splits)

lemma assert_tap_in_region_few:
  assumes wf: "list_all record_wf (commands s)" and fin: "finite_log s"
    and few: "length (recorded_taps s) \<le> nat n" and n: "0 \<le> n"
  shows "\<exists>msg. assert_tap_in_region s x1 y1 x2 y2 n = Raised (AssertionError msg)"
proof -
  have sel: "select_taps (map entry_action (commands s)) = Inr (map entry_action (recorded_taps s))"
    using wf by (simp add: select_taps_entries recorded_taps_def)
  have "\<not> n < int (length (recorded_taps s))"
    using few n by linarith
  then show ?thesis
    by (simp add: assert_tap_in_region_def get_actions_entries [OF wf] fin sel bind_def lift_def
        py_assert_def)
qed

lemma assert_tap_in_region_nth:
  assumes wf: "list_all record_wf (commands s)" and fin: "finite_log s"
    and lt: "nat n < length (recorded_taps s)"
    and n: "0 \<le> n" and c: "coords (recorded_taps s ! nat n) = Some (x, y)"
  shows "assert_tap_in_region s x1 y1 x2 y2 n =
           (if \<not> (x1 \<le> x \<and> x \<le> x2) then
              Raised (AssertionError (''Tap x='' @ str_int x @ '' not in range ['' @ str_int x1 @
                        '', '' @ str_int x2 @ '']''))
            else if \<not> (y1 \<le> y \<and> y \<le> y2) then
              Raised (AssertionError (''Tap y='' @ str_int y @ '' not in range ['' @ str_int y1 @
                        '', '' @ str_int y2 @ '']''))
            else Returned ())"
proof -
  let ?taps = "recorded_taps s"
  let ?c = "?taps ! nat n"
  have mem: "?c \<in> set ?taps" using lt by simp
  then have cwf: "record_wf ?c"
    using wf by (auto simp: recorded_taps_def list_all_iff)
  have gx: "getitem (entry_action ?c) ''x'' = Inr (PInt x)"
    using coords_getitem(1) [OF c] by (simp add: getitem_param [OF cwf])
  have gy: "getitem (entry_action ?c) ''y'' = Inr (PInt y)"
    using coords_getitem(2) [OF c] by (simp add: getitem_param [OF cwf])
  have sel: "select_taps (map entry_action (commands s)) = Inr (map entry_action ?taps)"
    using wf by (simp add: select_taps_entries recorded_taps_def)
  have len: "n < int (length ?taps)" using lt n by linarith
  have idx: "py_index (map entry_action ?taps) n = Inr (entry_action ?c)"
    using lt n len by (simp add: py_index_def)
  show ?thesis
    using len
    by (simp add: assert_tap_in_region_def get_actions_entries [OF wf] fin sel idx gx gy
        bind_def lift_def py_assert_def as_int_def)
qed

section \<open>The recorder\<close>

text \<open>
  C1 (as stated): every verb call appends a record whose action is the verb's name. This
  fails for \<open>current_app\<close>: the record written by \<open>GET /device/mock_001/current_app\<close> on a
  fresh harness has the action \<open>get_current_app\<close>.
\<close>

theorem current_app_action_counterexample:
  "action (last (commands (snd (call_verb Get_current_app ''mock_001'' clock0 MockAgentState_init))))
     = ''get_current_app'' \<and>
   action (last (commands (snd (call_verb Get_current_app ''mock_001'' clock0 MockAgentState_init))))
     \<noteq> verb_name Get_current_app"
  by (simp add: current_app_def Let_def)

text \<open>
  C1 (amended): every call of a device-control verb, in any state of the harness (scenario
  loaded or not, engine answering or not), appends exactly one record to the log. Its
  device id is the caller's, its parameters are all the parameters of the verb, and its
  action is the verb's name, except for \<open>current_app\<close>, recorded as \<open>get_current_app\<close>.
\<close>

theorem call_verb_records:
  "commands (snd (call_verb c d now s)) =
     commands s @
       [\<lparr>action = (if c = Get_current_app then ''get_current_app'' else verb_name c),
         device_id = d, params = verb_params c, timestamp = now\<rparr>]"
  by (cases c) (simp_all add: verb_defs Let_def split: option.split)

text \<open>
  C4: after a run of record calls the log is the old log followed by one entry per call,
  in the order of the calls; \<open>get_commands\<close> returns the log entry by entry, so from an
  empty log it returns exactly as many entries as there were calls. One call appends one
  entry and leaves the earlier ones as they were.
\<close>

theorem get_commands_in_call_order:
  "fst (get_commands (record_calls cs s)) =
     Inr (map to_dict (commands s) @ map (\<lambda>c. to_dict (entry c)) cs) \<and>
   fst (get_commands (record_calls cs (state_reset s))) = Inr (map (\<lambda>c. to_dict (entry c)) cs) \<and>
   (\<exists>es. fst (get_commands (record_calls cs MockAgentState_init)) = Inr es \<and>
         length es = length cs) \<and>
   commands (state_record a d ps now s) = commands s @ [entry (a, d, ps, now)]"
  by (simp add: get_commands_def commands_record_calls state_reset_def MockAgentState_init_def
      entry_def)

text \<open>
  C5: \<open>reset\<close> empties the log and changes nothing else: the engine, with its current
  state and its history, and the scenario path are the ones before the call.
\<close>

theorem reset_only_clears_log:
  "snd (reset s) = s\<lparr>commands := []\<rparr> \<and>
   commands (snd (reset s)) = [] \<and>
   state_machine (snd (reset s)) = state_machine s \<and>
   map_option current_state_id (state_machine (snd (reset s))) =
     map_option current_state_id (state_machine s) \<and>
   map_option state_history (state_machine (snd (reset s))) =
     map_option state_history (state_machine s) \<and>
   scenario_path (snd (reset s)) = scenario_path s"
  by (simp add: reset_def state_reset_def)

section \<open>Loading a scenario\<close>

text \<open>
  C3: when the loader raises, \<open>load_scenario\<close> answers with \<open>HTTPException(400, ...)\<close> and
  the engine of the harness is the one it had before the call; the log is untouched too.
\<close>

theorem load_scenario_failure:
  assumes "load_test_case (req_scenario_path req) = Inl e"
  shows "fst (load_scenario load_test_case req s) =
           Inl (HTTPException 400 (''Failed to load scenario: '' @ e)) \<and>
         state_machine (snd (load_scenario load_test_case req s)) = state_machine s \<and>
         commands (snd (load_scenario load_test_case req s)) = commands s"
  using assms by (simp add: load_scenario_def state_load_scenario_def Let_def)

theorem load_scenario_failure_witness:
  "meituan_loader ''missing.yaml'' = Inl ''scenario not found'' \<and>
   fst (load_scenario meituan_loader \<lparr>req_scenario_path = ''missing.yaml''\<rparr> loaded) =
     Inl (HTTPException 400 ''Failed to load scenario: scenario not found'') \<and>
   state_machine (snd (load_scenario meituan_loader \<lparr>req_scenario_path = ''missing.yaml''\<rparr> loaded)) =
     Some meituan"
proof -
  have h: "meituan_loader (req_scenario_path \<lparr>req_scenario_path = ''missing.yaml''\<rparr>) =
             Inl ''scenario not found''"
    by (simp add: meituan_loader_def)
  show ?thesis
    using h
      load_scenario_failure
        [where load_test_case = meituan_loader and s = loaded and e = "''scenario not found''"
           and req = "\<lparr>req_scenario_path = ''missing.yaml''\<rparr>"]
    by (simp add: loaded_def)
qed

text \<open>
  C10: when the loader raises, the harness has already stored the new path: after the
  failed call \<open>scenario_path\<close> is the path that failed, while \<open>state_machine\<close> is still the
  engine from before. This holds for the method and for the endpoint that wraps it.
\<close>

theorem failed_load_keeps_path:
  assumes "load_test_case path = Inl e"
  shows "scenario_path (snd (state_load_scenario load_test_case path s)) = Some path \<and>
         state_machine (snd (state_load_scenario load_test_case path s)) = state_machine s \<and>
         scenario_path (snd (load_scenario load_test_case \<lparr>req_scenario_path = path\<rparr> s)) =
           Some path \<and>
         state_machine (snd (load_scenario load_test_case \<lparr>req_scenario_path = path\<rparr> s)) =
           state_machine s"
  using assms by (simp add: load_scenario_def state_load_scenario_def Let_def)

theorem failed_load_keeps_path_witness:
  "meituan_loader ''missing.yaml'' = Inl ''scenario not found'' \<and>
   scenario_path loaded = Some ''scenarios/meituan_message/scenario.yaml'' \<and>
   scenario_path (snd (state_load_scenario meituan_loader ''missing.yaml'' loaded)) =
     Some ''missing.yaml'' \<and>
   state_machine (snd (state_load_scenario meituan_loader ''missing.yaml'' loaded)) = Some meituan"
proof -
  have h: "meituan_loader ''missing.yaml'' = Inl ''scenario not found''"
    by (simp add: meituan_loader_def)
  show ?thesis
    using h
      failed_load_keeps_path
        [where load_test_case = meituan_loader and s = loaded and e = "''scenario not found''"
           and path = "''missing.yaml''"]
    by (simp add: loaded_def)
qed

section \<open>The endpoints and the engine\<close>

text \<open>
  C6: while no scenario is loaded, \<open>screenshot\<close> answers with the fixed placeholder (no
  pixel data, 1080 by 2400, not sensitive), \<open>current_app\<close> with the fixed identifier
  \<open>com.mock.app\<close>, and \<open>get_state\<close> with no current state and an empty history; none of
  the three raises.
\<close>

theorem placeholders_without_scenario:
  assumes "state_machine s = None"
  shows "fst (screenshot d req now s) =
           Inr [(''base64_data'', PStr []), (''width'', PInt 1080), (''height'', PInt 2400),
                (''is_sensitive'', PBool False)] \<and>
         fst (current_app d now s) = Inr [(''app_name'', PStr ''com.mock.app'')] \<and>
         fst (get_state s) = Inr [(''current_state'', PNone), (''history'', PList [])]"
  using assms
  by (simp add: screenshot_def current_app_def get_state_def state_get_screenshot_data_def
      state_get_current_app_def Let_def)

theorem placeholders_without_scenario_witness:
  "state_machine MockAgentState_init = None \<and>
   fst (screenshot ''mock_001'' \<lparr>screenshot_timeout = 10\<rparr> clock0 MockAgentState_init) =
     Inr [(''base64_data'', PStr []), (''width'', PInt 1080), (''height'', PInt 2400),
          (''is_sensitive'', PBool False)] \<and>
   fst (current_app ''mock_001'' clock0 MockAgentState_init) =
     Inr [(''app_name'', PStr ''com.mock.app'')] \<and>
   fst (get_state MockAgentState_init) =
     Inr [(''current_state'', PNone), (''history'', PList [])]"
proof -
  have h: "state_machine MockAgentState_init = None"
    by (simp add: MockAgentState_init_def)
  show ?thesis
    using h
      placeholders_without_scenario
        [where s = MockAgentState_init and d = "''mock_001''" and now = clock0
           and req = "\<lparr>screenshot_timeout = 10\<rparr>"]
    by simp
qed

text \<open>
  C7: \<open>tap\<close>, \<open>double_tap\<close> and \<open>long_press\<close> at \<open>(x, y)\<close> leave the harness with the engine
  that one \<open>handle_tap\<close> at \<open>(x, y)\<close> makes of the engine it had, and with no engine when
  it had none. \<open>type_text\<close>, \<open>clear_text\<close>, \<open>back\<close>, \<open>home\<close>, \<open>launch_app\<close>,
  \<open>detect_keyboard\<close> and \<open>restore_keyboard\<close> leave the engine as it was.
\<close>

theorem tap_verbs_dispatch_one_tap:
  "state_machine (snd (tap d r now s)) =
     map_option (\<lambda>m. snd (handle_tap m (tap_x r) (tap_y r))) (state_machine s) \<and>
   state_machine (snd (double_tap d r now s)) =
     map_option (\<lambda>m. snd (handle_tap m (tap_x r) (tap_y r))) (state_machine s) \<and>
   state_machine (snd (long_press d p now s)) =
     map_option (\<lambda>m. snd (handle_tap m (press_x p) (press_y p))) (state_machine s) \<and>
   state_machine (snd (type_text d t now s)) = state_machine s \<and>
   state_machine (snd (clear_text d now s)) = state_machine s \<and>
   state_machine (snd (back_verb d delay now s)) = state_machine s \<and>
   state_machine (snd (home d delay now s)) = state_machine s \<and>
   state_machine (snd (launch_app d l now s)) = state_machine s \<and>
   state_machine (snd (detect_keyboard d now s)) = state_machine s \<and>
   state_machine (snd (restore_keyboard d ime now s)) = state_machine s"
  by (simp add: verb_defs Let_def split: option.split)

text \<open>
  On the scenario of section 8: a tap, and equally a double tap, at \<open>(600, 2590)\<close> takes
  the engine from \<open>home\<close> to \<open>message\<close> in one step, and typing text afterwards leaves it
  there.
\<close>

lemma meituan_tap_600_2590:
  "handle_tap meituan 600 2590 =
     (Some ''message'',
      meituan\<lparr>current_state_id := ''message'', state_history := [''home'', ''message'']\<rparr>)"
  by (simp add: handle_tap_def handle_event_def current_state_def meituan_def in_region_def)

theorem tap_verbs_dispatch_one_tap_witness:
  "map_option state_history
     (state_machine (snd (tap ''mock_001'' tap_600_2590 clock0 loaded))) =
     Some [''home'', ''message''] \<and>
   map_option state_history
     (state_machine (snd (double_tap ''mock_001'' tap_600_2590 clock0 loaded))) =
     Some [''home'', ''message''] \<and>
   state_machine (snd (tap ''mock_001'' tap_600_2590 clock0 MockAgentState_init)) = None \<and>
   state_machine (snd (home ''mock_001'' None clock0 loaded)) = Some meituan"
  using
    tap_verbs_dispatch_one_tap
      [where s = loaded and r = tap_600_2590 and d = "''mock_001''" and now = clock0
         and delay = None]
    tap_verbs_dispatch_one_tap
      [where s = MockAgentState_init and r = tap_600_2590 and d = "''mock_001''" and now = clock0]
  by (simp add: loaded_def MockAgentState_init_def tap_600_2590_def meituan_tap_600_2590)

section \<open>The expect endpoint\<close>

text \<open>
  C2 (as stated): for every log and every expected-actions list, \<open>match\<close> is true exactly
  when the recorded action names are the expected list. The endpoint takes the list
  comma-separated, and two lists refute this. The empty list, on the empty log of a fresh
  harness: the names recorded are the expected list, yet \<open>match\<close> is false. The
  one-element list \<open>["tap,swipe"]\<close>, after a tap and a swipe: the names recorded are not
  the expected list, yet \<open>match\<close> is true.
\<close>

theorem expect_list_counterexample:
  "map action (commands MockAgentState_init) = [] \<and>
   fst (expect_commands (join '','' []) MockAgentState_init) =
     Inr [(''match'', PBool False), (''expected'', PList [PStr []]), (''actual'', PList []),
          (''message'', PStr (''Mismatch: expected ['' @ [CHR 0x27, CHR 0x27] @ ''], got []''))] \<and>
   map action (commands (run meituan_loader
      [Device (Post_tap tap_600_2590) ''mock_001'' clock0,
       Device (Post_swipe swipe_up) ''mock_001'' clock0] MockAgentState_init)) \<noteq> [''tap,swipe''] \<and>
   fst (expect_commands (join '','' [''tap,swipe'']) (run meituan_loader
      [Device (Post_tap tap_600_2590) ''mock_001'' clock0,
       Device (Post_swipe swipe_up) ''mock_001'' clock0] MockAgentState_init)) =
     Inr [(''match'', PBool True), (''expected'', PList [PStr ''tap'', PStr ''swipe'']),
          (''actual'', PList [PStr ''tap'', PStr ''swipe'']),
          (''message'', PStr ''Commands match!'')]"
  by (simp add: MockAgentState_init_def expect_commands_def Let_def strip_def isspace_def
      repr_list_def repr_str_def tap_def swipe_def)

text \<open>
  C2 (amended): \<open>expect\<close> never raises and returns the state it was given. Its response has
  the four fields \<open>match\<close>, \<open>expected\<close>, \<open>actual\<close> and \<open>message\<close>, in that order; the message
  is a non-empty text, and \<open>match\<close> is true exactly when the recorded action names, in
  order, are the list the endpoint reads from its query string. A list sent
  comma-separated is read back as itself exactly when it is not empty and each of its
  names is plain (no comma in it, no whitespace around it); for such a list, at the
  endpoint and through the client, \<open>match\<close> is true exactly when the recorded action names
  are that list.
\<close>

theorem expect_commands_reports:
  "snd (expect_commands actions s) = s \<and>
   (\<exists>r msg. fst (expect_commands actions s) = Inr r \<and>
      map fst r = [''match'', ''expected'', ''actual'', ''message''] \<and>
      map_of r ''expected'' = Some (PList (map PStr (map strip (split CHR '','' actions)))) \<and>
      map_of r ''actual'' = Some (PList (map PStr (map action (commands s)))) \<and>
      map_of r ''match'' =
        Some (PBool (map action (commands s) = map strip (split CHR '','' actions))) \<and>
      map_of r ''message'' = Some (PStr msg) \<and> msg \<noteq> []) \<and>
   (map strip (split CHR '','' (join '','' es)) = es \<longleftrightarrow> es \<noteq> [] \<and> list_all plain_name es) \<and>
   (es \<noteq> [] \<and> list_all plain_name es \<longrightarrow>
      (\<exists>r. fst (expect_commands (join '','' es) s) = Inr r \<and> expect es s = Inr r \<and>
         map_of r ''expected'' = Some (PList (map PStr es)) \<and>
         map_of r ''match'' = Some (PBool (map action (commands s) = es))))"
proof -
  have "es \<noteq> [] \<and> list_all plain_name es \<longrightarrow>
      (\<exists>r. fst (expect_commands (join '','' es) s) = Inr r \<and> expect es s = Inr r \<and>
         map_of r ''expected'' = Some (PList (map PStr es)) \<and>
         map_of r ''match'' = Some (PBool (map action (commands s) = es)))"
    by (simp add: expect_def resp_json_def expect_commands_def Let_def expected_of_join
        json_ok_names json_ok_names_comp)
  moreover have "map strip (split CHR '','' (join '','' es)) = es \<longleftrightarrow>
      es \<noteq> [] \<and> list_all plain_name es"
    by (rule join_roundtrip_iff)
  ultimately show ?thesis
    by (simp add: expect_commands_def Let_def)
qed

text \<open>
  After one tap, \<open>expect(["tap"])\<close> matches (the example of section 8 of the
  specification).
\<close>

theorem expect_commands_reports_witness:
  "[''tap''] \<noteq> [] \<and> list_all plain_name [''tap''] \<and>
   expect [''tap''] (snd (tap ''mock_001'' tap_600_2590 clock0 MockAgentState_init)) =
     Inr [(''match'', PBool True), (''expected'', PList [PStr ''tap'']),
          (''actual'', PList [PStr ''tap'']), (''message'', PStr ''Commands match!'')] \<and>
   snd (expect_commands ''tap''
          (snd (tap ''mock_001'' tap_600_2590 clock0 MockAgentState_init))) =
     snd (tap ''mock_001'' tap_600_2590 clock0 MockAgentState_init)"
proof -
  have h: "[''tap''] \<noteq> [] \<and> list_all plain_name [''tap'']"
    by (simp add: plain_name_def strip_def isspace_def)
  show ?thesis
    using h
      expect_commands_reports
        [where es = "[''tap'']" and actions = "''tap''"
           and s = "snd (tap ''mock_001'' tap_600_2590 clock0 MockAgentState_init)"]
    by (simp add: expect_def resp_json_def expect_commands_def Let_def tap_def
        MockAgentState_init_def strip_def isspace_def)
qed

text \<open>
  C9: the expected list of the response comes from the query string in two steps. The
  string is cut at its commas: the pieces, joined by commas again, are the string, no
  piece holds a comma, and there is one piece more than there are commas. Each piece is
  then stripped: the name is the piece without the whitespace before and after it, so
  the piece is whitespace, the name, whitespace, and the name is empty or begins and
  ends with a character that is not whitespace. Whitespace is the twelve characters
  listed. The empty string gives the one-element list of the empty name, and no string
  gives the empty list; so against an empty log \<open>match\<close> is false whatever the query
  string.
\<close>

theorem expect_never_matches_empty_log:
  "\<exists>r pieces names.
     fst (expect_commands actions s) = Inr r \<and>
     map_of r ''expected'' = Some (PList (map PStr names)) \<and>
     join '','' pieces = actions \<and>
     list_all (\<lambda>w. CHR '','' \<notin> set w) pieces \<and>
     length pieces = Suc (count_list actions CHR '','') \<and>
     list_all2
       (\<lambda>w e. \<exists>pre post. w = pre @ e @ post \<and> list_all isspace pre \<and> list_all isspace post \<and>
                 (e = [] \<or> (\<not> isspace (hd e) \<and> \<not> isspace (last e))))
       pieces names \<and>
     (isspace c \<longleftrightarrow>
        c \<in> set [CHR 0x09, CHR 0x0A, CHR 0x0B, CHR 0x0C, CHR 0x0D, CHR 0x1C, CHR 0x1D,
                  CHR 0x1E, CHR 0x1F, CHR 0x20, CHR 0x85, CHR 0xA0]) \<and>
     names \<noteq> [] \<and>
     (actions = [] \<longrightarrow> names = [[]]) \<and>
     (commands s = [] \<longrightarrow> map_of r ''match'' = Some (PBool False))"
proof -
  let ?pieces = "split CHR '','' actions"
  let ?names = "map strip ?pieces"
  let ?r = "[(''match'', PBool (map action (commands s) = ?names)),
             (''expected'', PList (map PStr ?names)),
             (''actual'', PList (map PStr (map action (commands s)))),
             (''message'',
                PStr (if map action (commands s) = ?names then ''Commands match!''
                      else ''Mismatch: expected '' @ repr_list ?names @ '', got '' @
                           repr_list (map action (commands s))))]"
  have one: "\<exists>pre post. w = pre @ strip w @ post \<and> list_all isspace pre \<and>
      list_all isspace post \<and>
      (strip w = [] \<or> (\<not> isspace (hd (strip w)) \<and> \<not> isspace (last (strip w))))" for w
  proof (intro exI conjI)
    show "w = takeWhile isspace w @ strip w @
              rev (takeWhile isspace (rev (dropWhile isspace w)))"
      by (rule strip_decomp)
    show "list_all isspace (takeWhile isspace w)"
      by (auto simp: list_all_iff dest: set_takeWhileD)
    show "list_all isspace (rev (takeWhile isspace (rev (dropWhile isspace w))))"
      by (auto simp: list_all_iff dest: set_takeWhileD)
    show "strip w = [] \<or> (\<not> isspace (hd (strip w)) \<and> \<not> isspace (last (strip w)))"
      by (rule strip_edges)
  qed
  have ne: "?names \<noteq> []"
    using split_not_Nil [of "CHR '',''" actions] by simp
  have body:
    "fst (expect_commands actions s) = Inr ?r \<and>
     map_of ?r ''expected'' = Some (PList (map PStr ?names)) \<and>
     join '','' ?pieces = actions \<and>
     list_all (\<lambda>w. CHR '','' \<notin> set w) ?pieces \<and>
     length ?pieces = Suc (count_list actions CHR '','') \<and>
     list_all2
       (\<lambda>w e. \<exists>pre post. w = pre @ e @ post \<and> list_all isspace pre \<and> list_all isspace post \<and>
                 (e = [] \<or> (\<not> isspace (hd e) \<and> \<not> isspace (last e))))
       ?pieces ?names \<and>
     (isspace c \<longleftrightarrow>
        c \<in> set [CHR 0x09, CHR 0x0A, CHR 0x0B, CHR 0x0C, CHR 0x0D, CHR 0x1C, CHR 0x1D,
                  CHR 0x1E, CHR 0x1F, CHR 0x20, CHR 0x85, CHR 0xA0]) \<and>
     ?names \<noteq> [] \<and>
     (actions = [] \<longrightarrow> ?names = [[]]) \<and>
     (commands s = [] \<longrightarrow> map_of ?r ''match'' = Some (PBool False))"
  proof (intro conjI)
    show "fst (expect_commands actions s) = Inr ?r"
      by (simp add: expect_commands_def Let_def)
    show "map_of ?r ''expected'' = Some (PList (map PStr ?names))"
      by simp
    show "join '','' ?pieces = actions"
      by (rule join_split)
    show "list_all (\<lambda>w. CHR '','' \<notin> set w) ?pieces"
      by (rule split_pieces)
    show "length ?pieces = Suc (count_list actions CHR '','')"
      by (rule length_split)
    show "list_all2
       (\<lambda>w e. \<exists>pre post. w = pre @ e @ post \<and> list_all isspace pre \<and> list_all isspace post \<and>
                 (e = [] \<or> (\<not> isspace (hd e) \<and> \<not> isspace (last e))))
       ?pieces ?names"
      unfolding list_all2_map2 by (rule list_all2_refl) (rule one)
    show "isspace c \<longleftrightarrow>
        c \<in> set [CHR 0x09, CHR 0x0A, CHR 0x0B, CHR 0x0C, CHR 0x0D, CHR 0x1C, CHR 0x1D,
                  CHR 0x1E, CHR 0x1F, CHR 0x20, CHR 0x85, CHR 0xA0]"
      by (rule isspace_chars)
    show "?names \<noteq> []"
      by (rule ne)
    show "actions = [] \<longrightarrow> ?names = [[]]"
      by (simp add: strip_def)
    show "commands s = [] \<longrightarrow> map_of ?r ''match'' = Some (PBool False)"
      using ne by simp
  qed
  show ?thesis
    apply (rule exI [of _ ?r])
    apply (rule exI [of _ ?pieces])
    apply (rule exI [of _ ?names])
    apply (rule body)
    done
qed

text \<open>
  The query string \<open>" tap , swipe"\<close> is read as \<open>["tap", "swipe"]\<close>, and the empty one as
  \<open>[""]\<close>; neither matches the empty log.
\<close>

theorem expect_never_matches_empty_log_witness:
  "commands MockAgentState_init = [] \<and>
   fst (expect_commands '' tap , swipe'' MockAgentState_init) =
     Inr [(''match'', PBool False), (''expected'', PList [PStr ''tap'', PStr ''swipe'']),
          (''actual'', PList []),
          (''message'',
           PStr (''Mismatch: expected ['' @ [CHR 0x27] @ ''tap'' @ [CHR 0x27] @ '', '' @
                 [CHR 0x27] @ ''swipe'' @ [CHR 0x27] @ ''], got []''))] \<and>
   fst (expect_commands [] MockAgentState_init) =
     Inr [(''match'', PBool False), (''expected'', PList [PStr []]), (''actual'', PList []),
          (''message'', PStr (''Mismatch: expected ['' @ [CHR 0x27, CHR 0x27] @ ''], got []''))]"
  using expect_never_matches_empty_log [of "'' tap , swipe''" MockAgentState_init "CHR '' ''"]
    expect_never_matches_empty_log [of "[]" MockAgentState_init "CHR '' ''"]
  by (simp add: MockAgentState_init_def expect_commands_def Let_def strip_def isspace_def
      repr_list_def repr_str_def repr_char_def isprintable_def)

section \<open>The client's tap assertion\<close>

text \<open>
  C8 (as stated): for every recorded log and every index, \<open>assert_tap_in_region\<close> raises
  an assertion failure exactly when too few taps are recorded or the tap is outside the
  rectangle. Two inputs refute this. After \<open>back\<close> with \<open>delay=nan\<close> no tap is recorded, so
  fewer than one, yet the helper at index 0 raises \<open>JSONDecodeError\<close> and not an assertion
  failure: the harness cannot render its log. On a fresh harness the index -1 makes the
  helper raise \<open>IndexError\<close>.
\<close>

theorem assert_tap_in_region_counterexample:
  "recorded_taps
     (run meituan_loader [Device (Post_back (Some nan)) ''mock_001'' clock0] MockAgentState_init) =
     [] \<and>
   assert_tap_in_region
     (run meituan_loader [Device (Post_back (Some nan)) ''mock_001'' clock0] MockAgentState_init)
     0 0 10 10 0 = Raised JSONDecodeError \<and>
   assert_tap_in_region MockAgentState_init 0 0 10 10 (- 1) = Raised IndexError"
  by (simp add: recorded_taps_def back_verb_def MockAgentState_init_def opt_float_def nan_def
      finite_float_def assert_tap_in_region_def get_actions_def get_command_actions_def
      resp_json_def dict_merge_def bind_def lift_def py_assert_def py_index_def)

text \<open>
  C8 (amended): let the log be the one any sequence of requests leaves on a fresh harness,
  with no float among its recorded parameters that is not finite, and let \<open>n\<close> be an index
  from 0. \<open>assert_tap_in_region\<close> raises \<open>AssertionError\<close> exactly when fewer than \<open>n + 1\<close>
  commands with the action \<open>tap\<close> are in the log, or the coordinates of the tap at
  position \<open>n\<close> are outside the rectangle; it returns exactly when that tap exists and
  \<open>x1 \<le> x \<le> x2\<close> and \<open>y1 \<le> y \<le> y2\<close>. It has no third outcome: no other exception
  leaves it.
\<close>

theorem assert_tap_in_region_iff:
  assumes n: "0 \<le> n" and fin: "finite_log (run ld rs MockAgentState_init)"
  shows "let s = run ld rs MockAgentState_init; taps = recorded_taps s in
         ((\<exists>msg. assert_tap_in_region s x1 y1 x2 y2 n = Raised (AssertionError msg)) \<longleftrightarrow>
            (length taps < nat n + 1 \<or>
             (\<exists>x y. coords (taps ! nat n) = Some (x, y) \<and>
                    \<not> (x1 \<le> x \<and> x \<le> x2 \<and> y1 \<le> y \<and> y \<le> y2)))) \<and>
         (assert_tap_in_region s x1 y1 x2 y2 n = Returned () \<longleftrightarrow>
            (nat n < length taps \<and>
             (\<exists>x y. coords (taps ! nat n) = Some (x, y) \<and>
                    x1 \<le> x \<and> x \<le> x2 \<and> y1 \<le> y \<and> y \<le> y2))) \<and>
         ((\<exists>msg. assert_tap_in_region s x1 y1 x2 y2 n = Raised (AssertionError msg)) \<or>
          assert_tap_in_region s x1 y1 x2 y2 n = Returned ())"
proof -
  define s where "s = run ld rs MockAgentState_init"
  have wf: "list_all record_wf (commands s)"
    unfolding s_def by (rule run_init_wf)
  have fs: "finite_log s"
    unfolding s_def by (rule fin)
  show ?thesis
  proof (cases "length (recorded_taps s) \<le> nat n")
    case True
    from assert_tap_in_region_few [OF wf fs True n, of x1 y1 x2 y2]
    obtain msg where "assert_tap_in_region s x1 y1 x2 y2 n = Raised (AssertionError msg)" ..
    with True show ?thesis
      unfolding s_def [symmetric] Let_def by auto
  next
    case False
    then have lt: "nat n < length (recorded_taps s)" by simp
    let ?c = "recorded_taps s ! nat n"
    have "?c \<in> set (recorded_taps s)" using lt by simp
    then have "record_wf ?c" and "action ?c = ''tap''"
      using wf by (auto simp: recorded_taps_def list_all_iff)
    then obtain x y where c: "coords ?c = Some (x, y)"
      by (auto simp: record_wf_def)
    show ?thesis
      unfolding s_def [symmetric] Let_def
      using lt c by (auto simp: assert_tap_in_region_nth [OF wf fs lt n c])
  qed
qed

text \<open>
  After loading the scenario and one tap at \<open>(600, 2590)\<close> with a delay of 0.5 seconds,
  the first tap is inside \<open>[487, 2516, 721, 2667]\<close> and there is no second tap.
\<close>

theorem assert_tap_in_region_iff_witness:
  "(0::int) \<le> 0 \<and>
   finite_log
     (run meituan_loader
        [Post_load_scenario \<lparr>req_scenario_path = ''scenarios/meituan_message/scenario.yaml''\<rparr>,
         Device (Post_tap tap_delayed) ''mock_001'' clock0]
        MockAgentState_init) \<and>
   recorded_taps
     (run meituan_loader
        [Post_load_scenario \<lparr>req_scenario_path = ''scenarios/meituan_message/scenario.yaml''\<rparr>,
         Device (Post_tap tap_delayed) ''mock_001'' clock0]
        MockAgentState_init) =
     [\<lparr>action = ''tap'', device_id = ''mock_001'',
       params = [(''x'', PInt 600), (''y'', PInt 2590), (''delay'', PFloat 0x3FE0000000000000)],
       timestamp = clock0\<rparr>] \<and>
   assert_tap_in_region
     (run meituan_loader
        [Post_load_scenario \<lparr>req_scenario_path = ''scenarios/meituan_message/scenario.yaml''\<rparr>,
         Device (Post_tap tap_delayed) ''mock_001'' clock0]
        MockAgentState_init)
     487 2516 721 2667 0 = Returned () \<and>
   (\<exists>msg. assert_tap_in_region
     (run meituan_loader
        [Post_load_scenario \<lparr>req_scenario_path = ''scenarios/meituan_message/scenario.yaml''\<rparr>,
         Device (Post_tap tap_delayed) ''mock_001'' clock0]
        MockAgentState_init)
     487 2516 721 2667 1 = Raised (AssertionError msg))"
proof -
  let ?rs = "[Post_load_scenario \<lparr>req_scenario_path = ''scenarios/meituan_message/scenario.yaml''\<rparr>,
              Device (Post_tap tap_delayed) ''mock_001'' clock0]"
  have cmds: "commands (run meituan_loader ?rs MockAgentState_init) =
     [\<lparr>action = ''tap'', device_id = ''mock_001'',
       params = [(''x'', PInt 600), (''y'', PInt 2590), (''delay'', PFloat 0x3FE0000000000000)],
       timestamp = clock0\<rparr>]"
    by (simp add: load_scenario_def state_load_scenario_def meituan_loader_def
        MockAgentState_init_def tap_def tap_delayed_def opt_float_def Let_def)
  have taps: "recorded_taps (run meituan_loader ?rs MockAgentState_init) =
     [\<lparr>action = ''tap'', device_id = ''mock_001'',
       params = [(''x'', PInt 600), (''y'', PInt 2590), (''delay'', PFloat 0x3FE0000000000000)],
       timestamp = clock0\<rparr>]"
    unfolding recorded_taps_def cmds by simp
  have fin: "finite_log (run meituan_loader ?rs MockAgentState_init)"
    unfolding finite_log_def cmds by (simp add: finite_float_def)
  have z: "(0::int) \<le> 0" and o: "(0::int) \<le> 1" by simp_all
  show ?thesis
    using z fin taps
      assert_tap_in_region_iff
        [OF z fin, where ?x1.0 = 487 and ?y1.0 = 2516 and ?x2.0 = 721 and ?y2.0 = 2667]
      assert_tap_in_region_iff
        [OF o fin, where ?x1.0 = 487 and ?y1.0 = 2516 and ?x2.0 = 721 and ?y2.0 = 2667]
    by (simp add: Let_def coords_def)
qed

end
